theory Spec2Isabelle
  imports Complex_Main
begin

section \<open>Data model of \<open>audio_clustering.py\<close>\<close>

text \<open>
  A feature value read from the JSON input is a number or a list of numbers. A number
  is a Python float: a finite value (taken as a real, rounding left aside), or one of the
  special values that \<open>json.load\<close> accepts as \<open>NaN\<close>, \<open>Infinity\<close> and
  \<open>-Infinity\<close>.
\<close>

datatype fnum = Fin real | NaN | PosInf | NegInf

datatype fvalue = Scalar fnum | Seq "fnum list"

type_synonym features_dict = "string \<rightharpoonup> fvalue"

text \<open>
  The exceptions the script can meet. \<open>NoValidFeatureVectors\<close> is the
  \<open>ValueError("No valid feature vectors found")\<close> of \<open>perform_clustering\<close>;
  \<open>EngineFailure\<close> carries whatever a library call (scaler, HDBSCAN, UMAP) raised.
\<close>

datatype error =
    KeyError string
  | TypeError
  | ArrayValueError
  | IndexError
  | NoValidFeatureVectors
  | EngineFailure string

text \<open>
  A numpy array as \<open>np.array(..., dtype=float)\<close> builds it from a list whose items
  are numbers or lists of numbers: one-dimensional when every item is a number,
  two-dimensional when every item is a list and all have one length.
\<close>

datatype ndarray = Arr1 "fnum list" | Arr2 "fnum list list"

text \<open>
  One input record, a JSON object. Either key may be missing (\<open>None\<close>): the
  script meets a missing \<open>features\<close> or a missing \<open>id\<close> as a \<open>KeyError\<close>.
\<close>

record snippet =
  snippet_id :: "int option"
  features :: "features_dict option"

section \<open>\<open>extract_feature_vector\<close>\<close>

definition spectral_features :: "string list" where
  "spectral_features =
     [''spectral_centroid_mean'', ''spectral_centroid_std'',
      ''spectral_bandwidth_mean'', ''spectral_bandwidth_std'',
      ''spectral_rolloff_mean'', ''spectral_rolloff_std'']"

definition rate_features :: "string list" where
  "rate_features = [''zero_crossing_rate_mean'', ''zero_crossing_rate_std'']"

definition energy_features :: "string list" where
  "energy_features = [''rms_mean'', ''rms_std'']"

definition metadata_features :: "string list" where
  "metadata_features = [''duration'', ''sample_rate'', ''audio_length'']"

text \<open>\<open>features_dict[k]\<close>: a missing key raises \<open>KeyError\<close>.\<close>

definition dict_get :: "features_dict \<Rightarrow> string \<Rightarrow> error + fvalue" where
  "dict_get d k = (case d k of None \<Rightarrow> Inl (KeyError k) | Some v \<Rightarrow> Inr v)"

text \<open>\<open>feature_vector.extend(v)\<close>: a float is not iterable and raises \<open>TypeError\<close>.\<close>

definition list_extend :: "fvalue list \<Rightarrow> fvalue \<Rightarrow> error + fvalue list" where
  "list_extend fv v =
     (case v of Scalar x \<Rightarrow> Inl TypeError | Seq xs \<Rightarrow> Inr (fv @ map Scalar xs))"

text \<open>
  The two paired groups (lines 24-26 for MFCC, 51-53 for chroma): the test is on the
  mean key only, then both keys are read and appended.
\<close>

definition extend_group ::
  "features_dict \<Rightarrow> string \<Rightarrow> string \<Rightarrow> fvalue list \<Rightarrow> error + fvalue list" where
  "extend_group d k_mean k_std fv =
     (if d k_mean \<noteq> None then
        (case dict_get d k_mean of
           Inl e \<Rightarrow> Inl e
         | Inr m \<Rightarrow>
             (case list_extend fv m of
                Inl e \<Rightarrow> Inl e
              | Inr fv1 \<Rightarrow>
                  (case dict_get d k_std of
                     Inl e \<Rightarrow> Inl e
                   | Inr s \<Rightarrow> list_extend fv1 s)))
      else Inr fv)"

text \<open>The loops \<open>for feature in ...: if feature in features_dict: append\<close>.\<close>

fun append_present :: "features_dict \<Rightarrow> string list \<Rightarrow> fvalue list \<Rightarrow> fvalue list" where
  "append_present d [] fv = fv"
| "append_present d (k # ks) fv =
     append_present d ks (case d k of None \<Rightarrow> fv | Some v \<Rightarrow> fv @ [v])"

fun scalars_of :: "fvalue list \<Rightarrow> fnum list option" where
  "scalars_of [] = Some []"
| "scalars_of (Scalar x # r) = map_option ((#) x) (scalars_of r)"
| "scalars_of (Seq xs # r) = None"

fun seqs_of :: "fvalue list \<Rightarrow> fnum list list option" where
  "seqs_of [] = Some []"
| "seqs_of (Seq xs # r) = map_option ((#) xs) (seqs_of r)"
| "seqs_of (Scalar x # r) = None"

text \<open>
  \<open>np.array(feature_vector, dtype=float)\<close>: a list of numbers gives a vector, a list of
  equally long lists gives a matrix, anything else raises \<open>ValueError\<close> (inhomogeneous
  shape).
\<close>

definition np_array :: "fvalue list \<Rightarrow> error + ndarray" where
  "np_array items =
     (case scalars_of items of
        Some xs \<Rightarrow> Inr (Arr1 xs)
      | None \<Rightarrow>
          (case seqs_of items of
             Some (r # rs) \<Rightarrow>
               if list_all (\<lambda>s. length s = length r) rs then Inr (Arr2 (r # rs))
               else Inl ArrayValueError
           | _ \<Rightarrow> Inl ArrayValueError))"

definition extract_feature_vector :: "features_dict \<Rightarrow> error + ndarray" where
  "extract_feature_vector features_dict =
     (case extend_group features_dict ''mfcc_mean'' ''mfcc_std'' [] of
        Inl e \<Rightarrow> Inl e
      | Inr fv1 \<Rightarrow>
          (let fv2 = append_present features_dict spectral_features fv1;
               fv3 = append_present features_dict rate_features fv2;
               fv4 = append_present features_dict energy_features fv3
           in case extend_group features_dict ''chroma_mean'' ''chroma_std'' fv4 of
                Inl e \<Rightarrow> Inl e
              | Inr fv5 \<Rightarrow> np_array (append_present features_dict metadata_features fv5)))"

section \<open>The validity loop of \<open>perform_clustering\<close>\<close>

fun isnan :: "fnum \<Rightarrow> bool" where
  "isnan NaN = True"
| "isnan _ = False"

fun isinf :: "fnum \<Rightarrow> bool" where
  "isinf PosInf = True"
| "isinf NegInf = True"
| "isinf _ = False"

fun elements :: "ndarray \<Rightarrow> fnum list" where
  "elements (Arr1 xs) = xs"
| "elements (Arr2 rows) = concat rows"

text \<open>\<open>np.any(np.isnan(a))\<close> and \<open>np.any(np.isinf(a))\<close>.\<close>

definition any_isnan :: "ndarray \<Rightarrow> bool" where
  "any_isnan a = list_ex isnan (elements a)"

definition any_isinf :: "ndarray \<Rightarrow> bool" where
  "any_isinf a = list_ex isinf (elements a)"

datatype warning =
    InvalidFeatures int
  | FailedToExtract int error

text \<open>
  The state of the loop: the two lists it fills, and the warnings it has printed.
\<close>

record loop_state =
  feature_vectors :: "ndarray list"
  valid_indices :: "nat list"
  warnings :: "warning list"

definition init_state :: loop_state where
  "init_state = \<lparr>feature_vectors = [], valid_indices = [], warnings = []\<rparr>"

text \<open>
  The body of the loop for the record at position \<open>i\<close>: the \<open>try\<close> covers the read of
  \<open>feature_data['features']\<close>, the extraction and the check; \<open>except Exception\<close>
  prints a warning and goes on.

  Both warnings (lines 82 and 85) format \<open>feature_data['id']\<close>. When the record has no
  \<open>id\<close>, the read at line 85 raises \<open>KeyError\<close> inside the handler, where nothing
  catches it (the read at line 82 raises inside the \<open>try\<close> and so leads to line 85):
  the exception leaves the loop and \<open>perform_clustering\<close>.
\<close>

definition read_id :: "snippet \<Rightarrow> error + int" where
  "read_id feature_data =
     (case snippet_id feature_data of None \<Rightarrow> Inl (KeyError ''id'') | Some k \<Rightarrow> Inr k)"

definition try_extract :: "snippet \<Rightarrow> error + ndarray" where
  "try_extract feature_data =
     (case features feature_data of
        None \<Rightarrow> Inl (KeyError ''features'')
      | Some d \<Rightarrow> extract_feature_vector d)"

definition process_snippet :: "nat \<Rightarrow> snippet \<Rightarrow> loop_state \<Rightarrow> error + loop_state" where
  "process_snippet i feature_data st =
     (case try_extract feature_data of
        Inl e \<Rightarrow>
          (case read_id feature_data of
             Inl e' \<Rightarrow> Inl e'
           | Inr k \<Rightarrow> Inr (st\<lparr>warnings := warnings st @ [FailedToExtract k e]\<rparr>))
      | Inr feature_vector \<Rightarrow>
          if \<not> any_isnan feature_vector \<and> \<not> any_isinf feature_vector
          then Inr (st\<lparr>feature_vectors := feature_vectors st @ [feature_vector],
                       valid_indices := valid_indices st @ [i]\<rparr>)
          else
            (case read_id feature_data of
               Inl e' \<Rightarrow> Inl e'
             | Inr k \<Rightarrow> Inr (st\<lparr>warnings := warnings st @ [InvalidFeatures k]\<rparr>)))"

fun validate_loop :: "nat \<Rightarrow> snippet list \<Rightarrow> loop_state \<Rightarrow> error + loop_state" where
  "validate_loop i [] st = Inr st"
| "validate_loop i (feature_data # rest) st =
     (case process_snippet i feature_data st of
        Inl e \<Rightarrow> Inl e
      | Inr st' \<Rightarrow> validate_loop (Suc i) rest st')"

definition validate :: "snippet list \<Rightarrow> error + loop_state" where
  "validate features_data = validate_loop 0 features_data init_state"

section \<open>Parameter selection\<close>

record hdbscan_params =
  min_cluster_size :: int
  min_samples :: int
  hdbscan_metric :: string
  cluster_selection_method :: string
  cluster_selection_epsilon :: real
  alpha :: real

text \<open>Lines 104-140, with \<open>n = len(feature_vectors)\<close>.\<close>

definition select_min_cluster_size :: "nat \<Rightarrow> int" where
  "select_min_cluster_size n =
     (if n \<le> 10 then max 2 (int n div 3)
      else if n < 20 then 3
      else 3)"

definition select_min_samples :: "nat \<Rightarrow> int" where
  "select_min_samples n =
     (if n \<le> 10 then 1
      else if n < 20 then 2
      else 2)"

definition select_epsilon :: "nat \<Rightarrow> real" where
  "select_epsilon n = (if n \<le> 10 then 3 / 10 else 1 / 10)"

definition select_alpha :: "nat \<Rightarrow> real" where
  "select_alpha n = (if n \<le> 10 then 1 / 2 else 1)"

definition clustering_params :: "nat \<Rightarrow> hdbscan_params" where
  "clustering_params n =
     \<lparr>min_cluster_size = select_min_cluster_size n,
      min_samples = select_min_samples n,
      hdbscan_metric = ''euclidean'',
      cluster_selection_method = ''eom'',
      cluster_selection_epsilon = select_epsilon n,
      alpha = select_alpha n\<rparr>"

record umap_params =
  n_neighbors :: int
  min_dist :: real
  n_components :: nat
  umap_metric :: string
  random_state :: int

text \<open>Lines 162-176: the table, before the adjustment.\<close>

definition table_n_neighbors :: "nat \<Rightarrow> int" where
  "table_n_neighbors n =
     (if n < 5 then max 1 (int n - 1)
      else if n < 10 then min 5 (int n - 1)
      else 15)"

definition select_min_dist :: "nat \<Rightarrow> real" where
  "select_min_dist n =
     (if n < 5 then 1 / 2
      else if n < 10 then 3 / 10
      else 1 / 10)"

text \<open>Lines 178-180: \<open>min\<close> with \<open>n - 1\<close>, then \<open>max\<close> with 1.\<close>

definition final_n_neighbors :: "nat \<Rightarrow> int" where
  "final_n_neighbors n = max 1 (min (table_n_neighbors n) (int n - 1))"

definition embedding_params :: "nat \<Rightarrow> umap_params" where
  "embedding_params n =
     \<lparr>n_neighbors = final_n_neighbors n,
      min_dist = select_min_dist n,
      n_components = 2,
      umap_metric = ''euclidean'',
      random_state = 42\<rparr>"

section \<open>The library calls\<close>

text \<open>
  \<open>StandardScaler().fit_transform\<close>, \<open>hdbscan.HDBSCAN(...).fit_predict\<close> and
  \<open>umap.UMAP(...).fit_transform\<close> are not code of the script: they are parameters of
  the model. Each takes what the script passes and returns its array, or the message of
  the exception it raised.
\<close>

record engines =
  scaler :: "fnum list list \<Rightarrow> string + real list list"
  clusterer :: "hdbscan_params \<Rightarrow> real list list \<Rightarrow> string + int list"
  reducer :: "umap_params \<Rightarrow> real list list \<Rightarrow> string + real list list"

section \<open>\<open>perform_clustering\<close>\<close>

fun rows_of :: "ndarray list \<Rightarrow> fnum list list option" where
  "rows_of [] = Some []"
| "rows_of (Arr1 xs # r) = map_option ((#) xs) (rows_of r)"
| "rows_of (Arr2 m # r) = None"

text \<open>
  Line 94, \<open>X = np.array(feature_vectors)\<close>: vectors of one length stack into a matrix.
  Vectors of different lengths raise \<open>ValueError\<close>; two-dimensional items give either
  that error or a three-dimensional array, which the scaler refuses at line 98. In all
  these cases the batch ends with an error before clustering.
\<close>

definition np_stack :: "ndarray list \<Rightarrow> error + fnum list list" where
  "np_stack arrs =
     (case rows_of arrs of
        None \<Rightarrow> Inl ArrayValueError
      | Some [] \<Rightarrow> Inr []
      | Some (r # rs) \<Rightarrow>
          if list_all (\<lambda>s. length s = length r) rs then Inr (r # rs)
          else Inl ArrayValueError)"

text \<open>
  \<open>X_scaled[cluster_mask]\<close>: a boolean mask of another length than the array raises
  \<open>IndexError\<close>; otherwise the rows whose mask entry is true, in order.
\<close>

definition boolean_index :: "'a list \<Rightarrow> bool list \<Rightarrow> error + 'a list" where
  "boolean_index X cluster_mask =
     (if length cluster_mask \<noteq> length X then Inl IndexError
      else Inr (map fst (filter snd (zip X cluster_mask))))"

text \<open>
  \<open>np.mean(rows, axis=0)\<close>: the rows are added component by component and the sums
  divided by the number of rows. (With no row numpy returns not-a-number entries; the
  script never gets there, since a label of the set selects a row.)
\<close>

definition np_mean_axis0 :: "real list list \<Rightarrow> real list" where
  "np_mean_axis0 rows =
     (case rows of
        [] \<Rightarrow> []
      | r # rs \<Rightarrow> map (\<lambda>s. s / real (length rows)) (foldl (map2 (+)) r rs))"

text \<open>Lines 152-157: the loop over \<open>sorted(unique_labels)\<close>.\<close>

fun centers_loop ::
  "real list list \<Rightarrow> int list \<Rightarrow> int list \<Rightarrow> real list list \<Rightarrow> error + real list list" where
  "centers_loop X_scaled cluster_labels [] cluster_centers = Inr cluster_centers"
| "centers_loop X_scaled cluster_labels (label # rest) cluster_centers =
     (if label \<noteq> - 1 then
        (case boolean_index X_scaled (map (\<lambda>l. l = label) cluster_labels) of
           Inl e \<Rightarrow> Inl e
         | Inr rows \<Rightarrow>
             centers_loop X_scaled cluster_labels rest
               (cluster_centers @ [np_mean_axis0 rows]))
      else centers_loop X_scaled cluster_labels rest cluster_centers)"

text \<open>Lines 145-147: \<open>set(cluster_labels)\<close>, with \<open>-1\<close> removed when it is there.\<close>

definition unique_labels_of :: "int list \<Rightarrow> int set" where
  "unique_labels_of cluster_labels =
     (let unique_labels = set cluster_labels
      in if - 1 \<in> unique_labels then unique_labels - {- 1} else unique_labels)"

record results =
  cluster_labels :: "int list"
  umap_embeddings :: "real list list"
  cluster_centers :: "real list list"
  valid_indices :: "nat list"
  total_clusters :: nat
  noise_points :: nat

definition perform_clustering :: "engines \<Rightarrow> snippet list \<Rightarrow> error + results" where
  "perform_clustering eng features_data =
     (case validate features_data of
        Inl e \<Rightarrow> Inl e
      | Inr st \<Rightarrow>
     (let n = length (feature_vectors st)
      in if n = 0 then Inl NoValidFeatureVectors
         else
           (case np_stack (feature_vectors st) of
              Inl e \<Rightarrow> Inl e
            | Inr X \<Rightarrow>
           (case scaler eng X of
              Inl m \<Rightarrow> Inl (EngineFailure m)
            | Inr X_scaled \<Rightarrow>
           (case clusterer eng (clustering_params n) X_scaled of
              Inl m \<Rightarrow> Inl (EngineFailure m)
            | Inr labels \<Rightarrow>
           (case centers_loop X_scaled labels
                   (sorted_list_of_set (unique_labels_of labels)) [] of
              Inl e \<Rightarrow> Inl e
            | Inr centers \<Rightarrow>
           (case reducer eng (embedding_params n) X_scaled of
              Inl m \<Rightarrow> Inl (EngineFailure m)
            | Inr embeddings \<Rightarrow>
                Inr \<lparr>cluster_labels = labels,
                     umap_embeddings = embeddings,
                     cluster_centers = centers,
                     valid_indices = loop_state.valid_indices st,
                     total_clusters = card (unique_labels_of labels),
                     noise_points = length (filter (\<lambda>l. l = - 1) labels)\<rparr>)))))))"

section \<open>Notions of the specification\<close>

text \<open>
  What the specification calls a valid sample, read per record and without the loop:
  the vector of a record whose extraction succeeds and whose vector holds neither
  not-a-number nor an infinite component.
\<close>

definition valid_vector :: "snippet \<Rightarrow> ndarray option" where
  "valid_vector s =
     (case try_extract s of
        Inl e \<Rightarrow> None
      | Inr v \<Rightarrow> if any_isnan v \<or> any_isinf v then None else Some v)"

text \<open>
  The warning a record with a per-sample problem gets, when the record has an \<open>id\<close>
  to print.
\<close>

definition snippet_warning :: "snippet \<Rightarrow> warning option" where
  "snippet_warning s =
     (case try_extract s of
        Inl e \<Rightarrow> map_option (\<lambda>k. FailedToExtract k e) (snippet_id s)
      | Inr v \<Rightarrow>
          if any_isnan v \<or> any_isinf v then map_option InvalidFeatures (snippet_id s)
          else None)"

text \<open>
  The loop runs to the end of the batch when every record that is not a valid sample
  has an \<open>id\<close> for its warning.
\<close>

definition loop_completes :: "snippet list \<Rightarrow> bool" where
  "loop_completes batch =
     list_all (\<lambda>s. case valid_vector s of Some v \<Rightarrow> True | None \<Rightarrow> snippet_id s \<noteq> None)
       batch"

text \<open>The rows of a matrix that carry a given label, in order.\<close>

definition rows_with_label :: "real list list \<Rightarrow> int list \<Rightarrow> int \<Rightarrow> real list list" where
  "rows_with_label X ls l = map fst (filter (\<lambda>p. snd p = l) (zip X ls))"

text \<open>
  The contract of the three library calls that the specification relies on: each returns
  one row (label, coordinate) per row of its input.
\<close>

definition one_row_per_sample :: "engines \<Rightarrow> bool" where
  "one_row_per_sample eng \<longleftrightarrow>
     (\<forall>X Y. scaler eng X = Inr Y \<longrightarrow> length Y = length X) \<and>
     (\<forall>p X ls. clusterer eng p X = Inr ls \<longrightarrow> length ls = length X) \<and>
     (\<forall>p X E. reducer eng p X = Inr E \<longrightarrow> length E = length X)"

section \<open>Stand-ins for the library calls, for the examples\<close>

definition fin_of :: "fnum \<Rightarrow> real" where
  "fin_of x = (case x of Fin r \<Rightarrow> r | _ \<Rightarrow> 0)"

text \<open>
  A scaler that refuses an empty matrix and a matrix without columns, as the library
  does, and otherwise hands the numbers on; a clusterer that labels a row by its first
  entry; a reducer that reports the parameters it was called with.
\<close>

definition demo_scaler :: "fnum list list \<Rightarrow> string + real list list" where
  "demo_scaler X =
     (case X of
        [] \<Rightarrow> Inl ''Found array with 0 sample(s)''
      | r # rs \<Rightarrow>
          if r = [] then Inl ''Found array with 0 feature(s)''
          else Inr (map (map fin_of) X))"

definition demo_clusterer :: "hdbscan_params \<Rightarrow> real list list \<Rightarrow> string + int list" where
  "demo_clusterer p X =
     Inr (map (\<lambda>row. case row of [] \<Rightarrow> - 1
                     | x # _ \<Rightarrow> if x < 0 then - 1 else if x < 10 then 0 else 1) X)"

definition demo_reducer :: "umap_params \<Rightarrow> real list list \<Rightarrow> string + real list list" where
  "demo_reducer p X = Inr (map (\<lambda>row. [of_int (n_neighbors p), min_dist p]) X)"

definition demo_engines :: engines where
  "demo_engines =
     \<lparr>scaler = demo_scaler, clusterer = demo_clusterer, reducer = demo_reducer\<rparr>"

text \<open>A record with the one feature \<open>duration\<close>.\<close>

definition snip :: "int \<Rightarrow> fnum \<Rightarrow> snippet" where
  "snip i x = \<lparr>snippet_id = Some i, features = Some [''duration'' \<mapsto> Scalar x]\<rparr>"

text \<open>A record without an \<open>id\<close>.\<close>

definition anonymous :: "features_dict option \<Rightarrow> snippet" where
  "anonymous d = \<lparr>snippet_id = None, features = d\<rparr>"



text \<open>
  A batch of five records: the second has a not-a-number duration, the third falls to
  the noise label of the stand-in clusterer.
\<close>

definition demo_batch :: "snippet list" where
  "demo_batch =
     [snip 1 (Fin 2), snip 2 NaN, snip 3 (Fin (- 1)), snip 4 (Fin 12), snip 5 (Fin 4)]"

text \<open>
  The keys \<open>extract_feature_vector\<close> looks at, and a features mapping that has none
  of them.
\<close>

definition recognized_keys :: "string list" where
  "recognized_keys =
     [''mfcc_mean'', ''mfcc_std''] @ spectral_features @ rate_features @ energy_features @
     [''chroma_mean'', ''chroma_std''] @ metadata_features"

definition no_recognized_group :: "features_dict \<Rightarrow> bool" where
  "no_recognized_group d = list_all (\<lambda>k. d k = None) recognized_keys"

text \<open>Example inputs: a record with an empty mapping, and two mappings with a lone mean.\<close>

definition empty_record :: snippet where
  "empty_record = \<lparr>snippet_id = Some 1, features = Some Map.empty\<rparr>"

definition mfcc_only :: features_dict where
  "mfcc_only = [''mfcc_mean'' \<mapsto> Seq [Fin 1, Fin 2]]"

definition chroma_only :: features_dict where
  "chroma_only = [''chroma_mean'' \<mapsto> Seq [Fin 3]]"

section \<open>The validity loop, record by record\<close>

lemma process_snippet_valid:
  "valid_vector s = Some v \<Longrightarrow>
   process_snippet i s st =
     Inr (st\<lparr>feature_vectors := feature_vectors st @ [v],
             loop_state.valid_indices := loop_state.valid_indices st @ [i]\<rparr>)"
  by (auto simp: process_snippet_def valid_vector_def split: sum.splits if_splits)

lemma process_snippet_invalid:
  "valid_vector s = None \<Longrightarrow> snippet_id s = Some k \<Longrightarrow>
   \<exists>w. snippet_warning s = Some w \<and>
       process_snippet i s st = Inr (st\<lparr>warnings := warnings st @ [w]\<rparr>)"
  by (auto simp: process_snippet_def valid_vector_def snippet_warning_def read_id_def
      split: sum.splits if_splits)

lemma process_snippet_no_id:
  "valid_vector s = None \<Longrightarrow> snippet_id s = None \<Longrightarrow>
   process_snippet i s st = Inl (KeyError ''id'')"
  by (auto simp: process_snippet_def valid_vector_def read_id_def
      split: sum.splits if_splits)

lemma valid_vector_no_warning: "valid_vector s = Some v \<Longrightarrow> snippet_warning s = None"
  by (auto simp: valid_vector_def snippet_warning_def split: sum.splits if_splits)

lemma validate_loop_Inr:
  "validate_loop i xs st = Inr st' \<Longrightarrow>
     feature_vectors st' = feature_vectors st @ List.map_filter valid_vector xs \<and>
     loop_state.valid_indices st' =
       loop_state.valid_indices st @
         map fst (filter (\<lambda>p. valid_vector (snd p) \<noteq> None) (enumerate i xs)) \<and>
     warnings st' = warnings st @ List.map_filter snippet_warning xs"
proof (induction xs arbitrary: i st)
  case Nil
  then show ?case by (simp add: map_filter_simps)
next
  case (Cons s xs)
  show ?case
  proof (cases "valid_vector s")
    case (Some v)
    let ?st1 = "st\<lparr>feature_vectors := feature_vectors st @ [v],
                   loop_state.valid_indices := loop_state.valid_indices st @ [i]\<rparr>"
    from Some Cons.prems have "validate_loop (Suc i) xs ?st1 = Inr st'"
      by (simp add: process_snippet_valid)
    from Cons.IH [OF this] Some valid_vector_no_warning [OF Some]
    show ?thesis by (simp add: map_filter_simps)
  next
    case None
    show ?thesis
    proof (cases "snippet_id s")
      case nid: None
      with None Cons.prems show ?thesis by (simp add: process_snippet_no_id)
    next
      case (Some k)
      with None obtain w where w: "snippet_warning s = Some w"
        "process_snippet i s st = Inr (st\<lparr>warnings := warnings st @ [w]\<rparr>)"
        using process_snippet_invalid by blast
      with Cons.prems have
        "validate_loop (Suc i) xs (st\<lparr>warnings := warnings st @ [w]\<rparr>) = Inr st'"
        by simp
      from Cons.IH [OF this] None w(1) show ?thesis by (simp add: map_filter_simps)
    qed
  qed
qed

lemma validate_loop_completes:
  "(\<exists>st'. validate_loop i xs st = Inr st') = loop_completes xs"
proof (induction xs arbitrary: i st)
  case Nil
  show ?case by (simp add: loop_completes_def)
next
  case (Cons s xs)
  show ?case
  proof (cases "valid_vector s")
    case (Some v)
    with Cons [of "Suc i"] show ?thesis
      by (simp add: process_snippet_valid loop_completes_def)
  next
    case None
    show ?thesis
    proof (cases "snippet_id s")
      case nid: None
      with None show ?thesis by (simp add: process_snippet_no_id loop_completes_def)
    next
      case (Some k)
      with None obtain w where
        "process_snippet i s st = Inr (st\<lparr>warnings := warnings st @ [w]\<rparr>)"
        using process_snippet_invalid by blast
      with None Some Cons [of "Suc i"] show ?thesis
        by (simp add: loop_completes_def)
    qed
  qed
qed

lemma validate_loop_error: "validate_loop i xs st = Inl e \<Longrightarrow> e = KeyError ''id''"
proof (induction xs arbitrary: i st)
  case Nil
  then show ?case by simp
next
  case (Cons s xs)
  show ?case
  proof (cases "process_snippet i s st")
    case (Inl e')
    with Cons.prems have "e = e'" by simp
    with Inl show ?thesis
      by (auto simp: process_snippet_def read_id_def
          split: sum.splits if_splits option.splits)
  next
    case (Inr st1)
    with Cons show ?thesis by simp
  qed
qed

lemma validate_Inr:
  "validate batch = Inr st \<Longrightarrow>
     feature_vectors st = List.map_filter valid_vector batch \<and>
     loop_state.valid_indices st =
       map fst (filter (\<lambda>p. valid_vector (snd p) \<noteq> None) (enumerate 0 batch)) \<and>
     warnings st = List.map_filter snippet_warning batch"
  using validate_loop_Inr [of 0 batch init_state st]
  by (simp add: validate_def init_state_def)

lemma validate_completes: "(\<exists>st. validate batch = Inr st) = loop_completes batch"
  unfolding validate_def by (rule validate_loop_completes)

lemma validate_error: "validate batch = Inl e \<Longrightarrow> e = KeyError ''id''"
  unfolding validate_def by (rule validate_loop_error)

lemma length_map_filter:
  "length (List.map_filter f xs) = length (filter (\<lambda>x. f x \<noteq> None) xs)"
  by (induction xs) (auto simp: map_filter_simps split: option.splits)

lemma length_filter_enumerate:
  "length (filter (\<lambda>p. P (snd p)) (enumerate i xs)) = length (filter P xs)"
  by (induction xs arbitrary: i) auto

lemma validate_lengths:
  assumes "validate xs = Inr st"
  shows "length (loop_state.valid_indices st) = length (feature_vectors st)"
  using length_filter_enumerate [of "\<lambda>s. valid_vector s \<noteq> None" 0 xs]
    validate_Inr [OF assms]
  by (simp add: length_map_filter)

lemma enumerated_indices_sorted:
  "sorted_wrt (<) (map fst (filter P (enumerate i xs)))"
proof -
  have "sorted_wrt (\<lambda>p q. fst p < fst q) (enumerate i xs)"
    using sorted_wrt_map [of "(<)" fst "enumerate i xs"] by simp
  then have "sorted_wrt (\<lambda>p q. fst p < fst q) (filter P (enumerate i xs))"
    by (rule sorted_wrt_filter)
  then show ?thesis by (simp add: sorted_wrt_map)
qed

lemma enumerated_indices_range:
  "k \<in> set (map fst (filter P (enumerate i xs))) \<Longrightarrow> i \<le> k \<and> k < i + length xs"
  by (auto simp: in_set_enumerate_eq)

lemma validate_indices_sorted:
  "validate xs = Inr st \<Longrightarrow> sorted_wrt (<) (loop_state.valid_indices st)"
  using validate_Inr [of xs st] by (simp add: enumerated_indices_sorted)

lemma validate_indices_range:
  "validate xs = Inr st \<Longrightarrow> k \<in> set (loop_state.valid_indices st) \<Longrightarrow> k < length xs"
  using enumerated_indices_range [of k _ 0 xs] validate_Inr [of xs st]
  by simp

lemma loop_completes_all_valid:
  "\<forall>s \<in> set batch. valid_vector s \<noteq> None \<Longrightarrow> loop_completes batch"
  by (auto simp: loop_completes_def list_all_iff)

section \<open>The stages after the loop\<close>

lemma rows_of_length: "rows_of arrs = Some rs \<Longrightarrow> length rs = length arrs"
proof (induction arrs arbitrary: rs)
  case Nil
  then show ?case by simp
next
  case (Cons a arrs)
  then show ?case by (cases a) auto
qed

lemma np_stack_length: "np_stack arrs = Inr X \<Longrightarrow> length X = length arrs"
  by (auto simp: np_stack_def dest: rows_of_length split: option.splits list.splits if_splits)

lemma np_stack_error: "np_stack arrs = Inl e \<Longrightarrow> e = ArrayValueError"
  by (auto simp: np_stack_def split: option.splits list.splits if_splits)

lemma boolean_index_label:
  "boolean_index X (map (\<lambda>l'. l' = l) ls) = Inr rows \<Longrightarrow>
     rows = rows_with_label X ls l \<and> length ls = length X"
  by (auto simp: boolean_index_def rows_with_label_def zip_map2 filter_map comp_def
      case_prod_beta split: if_splits)

lemma boolean_index_error: "boolean_index X m = Inl e \<Longrightarrow> e = IndexError"
  by (auto simp: boolean_index_def split: if_splits)

lemma centers_loop_result:
  "centers_loop X ls labs acc = Inr cs \<Longrightarrow>
     cs = acc @ map (\<lambda>l. np_mean_axis0 (rows_with_label X ls l)) (filter (\<lambda>l. l \<noteq> - 1) labs)
     \<and> (filter (\<lambda>l. l \<noteq> - 1) labs = [] \<or> length ls = length X)"
proof (induction labs arbitrary: acc)
  case Nil
  then show ?case by simp
next
  case (Cons l labs)
  show ?case
  proof (cases "l = - 1")
    case True
    with Cons show ?thesis by simp
  next
    case False
    with Cons.prems obtain rows where
      r: "boolean_index X (map (\<lambda>l'. l' = l) ls) = Inr rows" and
      c: "centers_loop X ls labs (acc @ [np_mean_axis0 rows]) = Inr cs"
      by (auto split: sum.splits)
    from r have "rows = rows_with_label X ls l" "length ls = length X"
      using boolean_index_label by blast+
    with Cons.IH [OF c] False show ?thesis by simp
  qed
qed

lemma centers_loop_error: "centers_loop X ls labs acc = Inl e \<Longrightarrow> e = IndexError"
proof (induction labs arbitrary: acc)
  case Nil
  then show ?case by simp
next
  case (Cons l labs)
  then show ?case
    by (auto split: if_splits sum.splits dest: boolean_index_error)
qed


lemma unique_labels_of_eq: "unique_labels_of ls = {l \<in> set ls. l \<noteq> - 1}"
  by (auto simp: unique_labels_of_def Let_def)

lemma sorted_unique_labels_no_noise:
  "filter (\<lambda>l. l \<noteq> - 1) (sorted_list_of_set (unique_labels_of ls)) =
     sorted_list_of_set (unique_labels_of ls)"
  by (rule filter_True) (simp add: unique_labels_of_eq)

lemma perform_clustering_Inr:
  assumes "perform_clustering eng batch = Inr r"
  shows "\<exists>st X X_scaled.
           validate batch = Inr st \<and>
           feature_vectors st \<noteq> [] \<and>
           np_stack (feature_vectors st) = Inr X \<and>
           scaler eng X = Inr X_scaled \<and>
           clusterer eng (clustering_params (length (feature_vectors st))) X_scaled
             = Inr (cluster_labels r) \<and>
           centers_loop X_scaled (cluster_labels r)
             (sorted_list_of_set (unique_labels_of (cluster_labels r))) []
             = Inr (cluster_centers r) \<and>
           reducer eng (embedding_params (length (feature_vectors st))) X_scaled
             = Inr (umap_embeddings r) \<and>
           results.valid_indices r = loop_state.valid_indices st \<and>
           total_clusters r = card (unique_labels_of (cluster_labels r)) \<and>
           noise_points r = length (filter (\<lambda>l. l = - 1) (cluster_labels r))"
  using assms
  by (auto simp: perform_clustering_def Let_def split: if_splits sum.splits)

lemma perform_clustering_no_valid:
  "(perform_clustering eng batch = Inl NoValidFeatureVectors) =
     (\<exists>st. validate batch = Inr st \<and> feature_vectors st = [])"
  by (auto simp: perform_clustering_def Let_def split: if_splits sum.splits
      dest: np_stack_error centers_loop_error validate_error)

lemma perform_clustering_loop_error:
  "validate batch = Inl e \<Longrightarrow> perform_clustering eng batch = Inl e"
  by (simp add: perform_clustering_def)

section \<open>Cluster centers\<close>

lemma foldl_map2_add:
  "\<forall>row \<in> set (r # rs). length row = d \<Longrightarrow>
     length (foldl (map2 (+)) r rs) = d \<and>
     (\<forall>j<d. foldl (map2 (+)) r rs ! j = r ! j + (\<Sum>row\<leftarrow>rs. (row ! j :: real)))"
proof (induction rs arbitrary: r)
  case Nil
  then show ?case by simp
next
  case (Cons x rs)
  have "\<forall>row \<in> set (map2 (+) r x # rs). length row = d"
    using Cons.prems by simp
  from Cons.IH [OF this] Cons.prems show ?case
    by (simp add: add.assoc)
qed

lemma np_mean_axis0_nth:
  assumes "rows \<noteq> []" and "\<forall>row \<in> set rows. length row = d" and "j < d"
  shows "np_mean_axis0 rows ! j = (\<Sum>row\<leftarrow>rows. row ! j) / real (length rows)"
proof -
  from assms(1) obtain r rs where rows: "rows = r # rs" by (cases rows) auto
  with assms(2) have "\<forall>row \<in> set (r # rs). length row = d" by simp
  from foldl_map2_add [OF this] assms(3) show ?thesis
    by (simp add: np_mean_axis0_def rows)
qed

lemma rows_with_label_subset: "set (rows_with_label X ls l) \<subseteq> set X"
  by (auto simp: rows_with_label_def dest: set_zip_leftD)

lemma rows_with_label_nonempty:
  assumes "l \<in> set ls" and "length ls = length X"
  shows "rows_with_label X ls l \<noteq> []"
proof -
  from assms(1) obtain i where i: "i < length ls" "ls ! i = l"
    by (auto simp: in_set_conv_nth)
  with assms(2) have "(X ! i, l) \<in> set (zip X ls)"
    by (auto simp: set_zip)
  then show ?thesis
    by (force simp: rows_with_label_def filter_empty_conv)
qed

lemma length_filter_eq_count_list: "length (filter (\<lambda>l. l = a) xs) = count_list xs a"
  by (induction xs) auto

section \<open>Extraction: absent keys and lone keys\<close>

lemma append_present_absent:
  "list_all (\<lambda>k. d k = None) ks \<Longrightarrow> append_present d ks fv = fv"
  by (induction ks arbitrary: fv) auto

lemma extract_no_recognized_group:
  assumes "no_recognized_group d"
  shows "extract_feature_vector d = Inr (Arr1 [])"
proof -
  from assms have m: "d ''mfcc_mean'' = None" and c: "d ''chroma_mean'' = None"
    and s: "list_all (\<lambda>k. d k = None) spectral_features"
    and r: "list_all (\<lambda>k. d k = None) rate_features"
    and e: "list_all (\<lambda>k. d k = None) energy_features"
    and t: "list_all (\<lambda>k. d k = None) metadata_features"
    by (simp_all add: no_recognized_group_def recognized_keys_def)
  show ?thesis
    by (simp add: extract_feature_vector_def extend_group_def m c
        append_present_absent [OF s] append_present_absent [OF r]
        append_present_absent [OF e] append_present_absent [OF t] np_array_def)
qed

lemma valid_vector_no_recognized_group:
  "features s = Some d \<Longrightarrow> no_recognized_group d \<Longrightarrow> valid_vector s = Some (Arr1 [])"
  by (simp add: valid_vector_def try_extract_def extract_no_recognized_group
      any_isnan_def any_isinf_def)

lemma map_filter_all_Some:
  "\<forall>x \<in> set xs. f x = Some v \<Longrightarrow> List.map_filter f xs = replicate (length xs) v"
  by (induction xs) (auto simp: map_filter_simps)

lemma map_filter_all_None:
  "\<forall>x \<in> set xs. f x = None \<Longrightarrow> List.map_filter f xs = []"
  by (induction xs) (auto simp: map_filter_simps)

lemma filter_enumerate_all:
  "\<forall>x \<in> set xs. P x \<Longrightarrow>
     map fst (filter (\<lambda>p. P (snd p)) (enumerate i xs)) = [i..<i + length xs]"
proof -
  assume "\<forall>x \<in> set xs. P x"
  then have "filter (\<lambda>p. P (snd p)) (enumerate i xs) = enumerate i xs"
    by (intro filter_True) (auto simp: in_set_enumerate_eq)
  then show ?thesis by simp
qed

lemma no_recognized_group_empty: "no_recognized_group Map.empty"
  by (simp add: no_recognized_group_def recognized_keys_def list_all_iff)

lemma extend_group_missing_std:
  "d k_mean \<noteq> None \<Longrightarrow> d k_std = None \<Longrightarrow> \<exists>e. extend_group d k_mean k_std fv = Inl e"
  by (auto simp: extend_group_def dict_get_def list_extend_def split: fvalue.splits)

lemma extend_group_absent: "d k_mean = None \<Longrightarrow> extend_group d k_mean k_std fv = Inr fv"
  by (simp add: extend_group_def)

lemma extend_group_upd_other:
  "k \<noteq> k_mean \<Longrightarrow> k \<noteq> k_std \<Longrightarrow>
     extend_group (d(k := v)) k_mean k_std fv = extend_group d k_mean k_std fv"
  by (auto simp: extend_group_def dict_get_def split: sum.splits option.splits)

lemma append_present_upd:
  "k \<notin> set ks \<Longrightarrow> append_present (d(k := v)) ks fv = append_present d ks fv"
  by (induction ks arbitrary: fv) auto

lemma extract_missing_mfcc_std:
  assumes "d ''mfcc_mean'' \<noteq> None" and "d ''mfcc_std'' = None"
  shows "\<exists>e. extract_feature_vector d = Inl e"
proof -
  from extend_group_missing_std [of d "''mfcc_mean''" "''mfcc_std''" "[]"] assms
  obtain e where "extend_group d ''mfcc_mean'' ''mfcc_std'' [] = Inl e" by blast
  then show ?thesis by (simp add: extract_feature_vector_def)
qed

lemma extract_missing_chroma_std:
  assumes "d ''chroma_mean'' \<noteq> None" and "d ''chroma_std'' = None"
  shows "\<exists>e. extract_feature_vector d = Inl e"
proof (cases "extend_group d ''mfcc_mean'' ''mfcc_std'' []")
  case (Inl e)
  then show ?thesis by (simp add: extract_feature_vector_def)
next
  case (Inr fv1)
  let ?fv4 = "append_present d energy_features
                (append_present d rate_features (append_present d spectral_features fv1))"
  from extend_group_missing_std [of d "''chroma_mean''" "''chroma_std''" ?fv4] assms
  obtain e where "extend_group d ''chroma_mean'' ''chroma_std'' ?fv4 = Inl e" by blast
  with Inr show ?thesis by (simp add: extract_feature_vector_def)
qed

lemma std_keys_not_scalar_keys:
  "''mfcc_std'' \<notin> set (spectral_features @ rate_features @ energy_features @ metadata_features)"
  "''chroma_std'' \<notin> set (spectral_features @ rate_features @ energy_features @ metadata_features)"
  by (simp_all add: spectral_features_def rate_features_def energy_features_def
      metadata_features_def)

lemma append_present_fixed_lists:
  assumes "k = ''mfcc_std'' \<or> k = ''chroma_std''"
  shows "append_present (d(k := v)) spectral_features fv = append_present d spectral_features fv"
    and "append_present (d(k := v)) rate_features fv = append_present d rate_features fv"
    and "append_present (d(k := v)) energy_features fv = append_present d energy_features fv"
    and "append_present (d(k := v)) metadata_features fv = append_present d metadata_features fv"
proof -
  from assms std_keys_not_scalar_keys
  have "k \<notin> set (spectral_features @ rate_features @ energy_features @ metadata_features)"
    by blast
  then have n: "k \<notin> set spectral_features" "k \<notin> set rate_features"
    "k \<notin> set energy_features" "k \<notin> set metadata_features"
    by simp_all
  show "append_present (d(k := v)) spectral_features fv = append_present d spectral_features fv"
    using n(1) by (rule append_present_upd)
  show "append_present (d(k := v)) rate_features fv = append_present d rate_features fv"
    using n(2) by (rule append_present_upd)
  show "append_present (d(k := v)) energy_features fv = append_present d energy_features fv"
    using n(3) by (rule append_present_upd)
  show "append_present (d(k := v)) metadata_features fv = append_present d metadata_features fv"
    using n(4) by (rule append_present_upd)
qed

lemma extract_ignores_mfcc_std:
  assumes "d ''mfcc_mean'' = None"
  shows "extract_feature_vector (d(''mfcc_std'' := v)) = extract_feature_vector d"
proof -
  have g: "extend_group (d(''mfcc_std'' := v)) ''mfcc_mean'' ''mfcc_std'' [] =
           extend_group d ''mfcc_mean'' ''mfcc_std'' []"
    using assms by (simp add: extend_group_absent)
  have c: "\<And>fv. extend_group (d(''mfcc_std'' := v)) ''chroma_mean'' ''chroma_std'' fv =
                 extend_group d ''chroma_mean'' ''chroma_std'' fv"
    by (simp add: extend_group_upd_other)
  show ?thesis
    unfolding extract_feature_vector_def g
    by (simp add: c append_present_fixed_lists cong: sum.case_cong)
qed

lemma extract_ignores_chroma_std:
  assumes "d ''chroma_mean'' = None"
  shows "extract_feature_vector (d(''chroma_std'' := v)) = extract_feature_vector d"
proof -
  have g: "extend_group (d(''chroma_std'' := v)) ''mfcc_mean'' ''mfcc_std'' [] =
           extend_group d ''mfcc_mean'' ''mfcc_std'' []"
    by (simp add: extend_group_upd_other)
  have c: "\<And>fv. extend_group (d(''chroma_std'' := v)) ''chroma_mean'' ''chroma_std'' fv =
                 extend_group d ''chroma_mean'' ''chroma_std'' fv"
    using assms by (simp add: extend_group_absent)
  show ?thesis
    unfolding extract_feature_vector_def g
    by (simp add: c append_present_fixed_lists cong: sum.case_cong)
qed

lemma process_snippet_failed:
  "features s = Some d \<Longrightarrow> extract_feature_vector d = Inl e \<Longrightarrow> snippet_id s = Some k \<Longrightarrow>
     process_snippet i s st =
       Inr (st\<lparr>warnings := warnings st @ [FailedToExtract k e]\<rparr>)"
  by (simp add: process_snippet_def try_extract_def read_id_def)

lemma extract_mfcc_only: "extract_feature_vector mfcc_only = Inl (KeyError ''mfcc_std'')"
  by (simp add: extract_feature_vector_def extend_group_def dict_get_def list_extend_def
      mfcc_only_def)

lemma extract_chroma_only: "extract_feature_vector chroma_only = Inl (KeyError ''chroma_std'')"
  by (simp add: extract_feature_vector_def extend_group_def dict_get_def list_extend_def
      chroma_only_def spectral_features_def rate_features_def energy_features_def)

section \<open>The example batches, evaluated\<close>

lemma extract_snip: "extract_feature_vector [''duration'' \<mapsto> Scalar x] = Inr (Arr1 [x])"
  by (simp add: extract_feature_vector_def extend_group_def spectral_features_def
      rate_features_def energy_features_def metadata_features_def np_array_def)

lemma try_extract_snip: "try_extract (snip i x) = Inr (Arr1 [x])"
  by (simp add: try_extract_def snip_def extract_snip)

lemma valid_vector_snip:
  "valid_vector (snip i x) = (if isnan x \<or> isinf x then None else Some (Arr1 [x]))"
  by (simp add: valid_vector_def try_extract_snip any_isnan_def any_isinf_def)

lemma snippet_id_snip: "snippet_id (snip i x) = Some i"
  by (simp add: snip_def)

lemma validate_demo_batch:
  "validate demo_batch =
     Inr \<lparr>feature_vectors = [Arr1 [Fin 2], Arr1 [Fin (- 1)], Arr1 [Fin 12], Arr1 [Fin 4]],
          valid_indices = [0, 2, 3, 4],
          warnings = [InvalidFeatures 2]\<rparr>"
  by (simp add: validate_def demo_batch_def init_state_def process_snippet_def
      try_extract_snip any_isnan_def any_isinf_def read_id_def snippet_id_snip)

lemma demo_labels_sorted: "sorted_list_of_set (unique_labels_of [0, - 1, 1, 0]) = [0, 1]"
  by code_simp

lemma demo_labels_card: "card (unique_labels_of [0, - 1, 1, 0]) = 2"
  by code_simp

lemma demo_run:
  "perform_clustering demo_engines demo_batch =
     Inr \<lparr>cluster_labels = [0, - 1, 1, 0],
          umap_embeddings = [[3, 1 / 2], [3, 1 / 2], [3, 1 / 2], [3, 1 / 2]],
          cluster_centers = [[3], [12]],
          valid_indices = [0, 2, 3, 4],
          total_clusters = 2,
          noise_points = 1\<rparr>"
  by (simp add: perform_clustering_def validate_demo_batch np_stack_def demo_engines_def
      demo_scaler_def demo_clusterer_def demo_reducer_def fin_of_def demo_labels_sorted demo_labels_card
      boolean_index_def np_mean_axis0_def clustering_params_def embedding_params_def
      final_n_neighbors_def table_n_neighbors_def select_min_dist_def)

lemma one_row_per_sample_demo: "one_row_per_sample demo_engines"
  by (auto simp: one_row_per_sample_def demo_engines_def demo_scaler_def demo_clusterer_def
      demo_reducer_def split: list.splits if_splits)






lemma valid_vector_anonymous:
  "valid_vector (anonymous (Some [''duration'' \<mapsto> Scalar x])) =
     (if isnan x \<or> isinf x then None else Some (Arr1 [x]))"
  by (simp add: valid_vector_def try_extract_def anonymous_def extract_snip any_isnan_def
      any_isinf_def)

lemma snippet_id_anonymous: "snippet_id (anonymous d) = None"
  by (simp add: anonymous_def)

section \<open>Parameter selection: the tables\<close>

text \<open>
  C1. For every number \<open>n\<close> of valid samples the clustering parameters are those of
  the table: for \<open>n \<le> 10\<close>, \<open>min_cluster_size = max(2, n // 3)\<close>, \<open>min_samples = 1\<close>,
  \<open>cluster_selection_epsilon = 0.3\<close>, \<open>alpha = 0.5\<close>; for \<open>n > 10\<close>, 3, 2, 0.1 and 1.0.
  The rows change between \<open>n = 10\<close> and \<open>n = 11\<close>.
\<close>

theorem clustering_params_table:
  "clustering_params n =
     (if n \<le> 10
      then \<lparr>min_cluster_size = max 2 (int n div 3), min_samples = 1,
            hdbscan_metric = ''euclidean'', cluster_selection_method = ''eom'',
            cluster_selection_epsilon = 3 / 10, alpha = 1 / 2\<rparr>
      else \<lparr>min_cluster_size = 3, min_samples = 2,
            hdbscan_metric = ''euclidean'', cluster_selection_method = ''eom'',
            cluster_selection_epsilon = 1 / 10, alpha = 1\<rparr>)"
  by (simp add: clustering_params_def select_min_cluster_size_def select_min_samples_def
      select_epsilon_def select_alpha_def)

theorem clustering_params_table_witness:
  "clustering_params 10 =
     \<lparr>min_cluster_size = 3, min_samples = 1,
      hdbscan_metric = ''euclidean'', cluster_selection_method = ''eom'',
      cluster_selection_epsilon = 3 / 10, alpha = 1 / 2\<rparr> \<and>
   clustering_params 11 =
     \<lparr>min_cluster_size = 3, min_samples = 2,
      hdbscan_metric = ''euclidean'', cluster_selection_method = ''eom'',
      cluster_selection_epsilon = 1 / 10, alpha = 1\<rparr>"
  using clustering_params_table [of 10] clustering_params_table [of 11] by simp

text \<open>
  C2. For every \<open>n \<ge> 2\<close> the neighbor count passed to the embedding is the table value
  (\<open>n < 5\<close>: \<open>max(1, n-1)\<close>; \<open>5 \<le> n < 10\<close>: \<open>min(5, n-1)\<close>; \<open>n \<ge> 10\<close>: 15) clamped to
  \<open>[1, n-1]\<close>: it is at least 1 and less than \<open>n\<close>.
\<close>

theorem neighbor_count_clamped:
  "2 \<le> n \<Longrightarrow>
     n_neighbors (embedding_params n) =
       max 1 (min (if n < 5 then max 1 (int n - 1)
                   else if n < 10 then min 5 (int n - 1)
                   else 15) (int n - 1))
     \<and> 1 \<le> n_neighbors (embedding_params n)
     \<and> n_neighbors (embedding_params n) \<le> int n - 1
     \<and> n_neighbors (embedding_params n) < int n"
  by (auto simp add: embedding_params_def final_n_neighbors_def table_n_neighbors_def
      min_def max_def)

theorem neighbor_count_clamped_witness:
  "(2::nat) \<le> 12 \<and> n_neighbors (embedding_params 12) = 11"
  using neighbor_count_clamped [of 12] by simp

section \<open>Failures of the batch and of single records\<close>

text \<open>
  C5. The batch fails with the "no valid feature vectors" error exactly when the loop
  runs to its end and no record of the batch is a valid sample: with zero valid samples
  after filtering the error is raised (and, the outcome being an error, no result is
  returned); with at least one valid sample it is not raised.
\<close>

theorem no_valid_data_iff:
  "(perform_clustering eng batch = Inl NoValidFeatureVectors) =
     (loop_completes batch \<and> List.map_filter valid_vector batch = [])"
proof
  assume "perform_clustering eng batch = Inl NoValidFeatureVectors"
  then obtain st where st: "validate batch = Inr st" "feature_vectors st = []"
    using perform_clustering_no_valid by blast
  from st(1) have "loop_completes batch" using validate_completes by blast
  with validate_Inr [OF st(1)] st(2)
  show "loop_completes batch \<and> List.map_filter valid_vector batch = []" by simp
next
  assume h: "loop_completes batch \<and> List.map_filter valid_vector batch = []"
  then obtain st where st: "validate batch = Inr st" using validate_completes by blast
  with validate_Inr [OF st] h have "validate batch = Inr st \<and> feature_vectors st = []"
    by simp
  then show "perform_clustering eng batch = Inl NoValidFeatureVectors"
    using perform_clustering_no_valid by blast
qed

theorem no_valid_data_iff_witness:
  "perform_clustering demo_engines [snip 1 NaN, snip 2 PosInf] = Inl NoValidFeatureVectors \<and>
   perform_clustering demo_engines demo_batch \<noteq> Inl NoValidFeatureVectors \<and>
   perform_clustering demo_engines [anonymous (Some [''duration'' \<mapsto> Scalar NaN])]
     \<noteq> Inl NoValidFeatureVectors"
  using no_valid_data_iff [of demo_engines "[snip 1 NaN, snip 2 PosInf]"]
    no_valid_data_iff [of demo_engines demo_batch]
    no_valid_data_iff [of demo_engines "[anonymous (Some [''duration'' \<mapsto> Scalar NaN])]"]
  by (simp add: map_filter_simps valid_vector_snip demo_batch_def loop_completes_def
      snippet_id_snip valid_vector_anonymous snippet_id_anonymous)

text \<open>
  C6. The claim: a per-sample problem (the extraction raises, or the vector holds a
  not-a-number or infinite component) only makes the loop skip that record with a
  warning, and never aborts the batch. For a record with an \<open>id\<close> the loop does so.
  For a record without an \<open>id\<close> the warning itself raises \<open>KeyError\<close> inside the
  \<open>except\<close> handler, and the batch is aborted: below, the same batch with and without
  the \<open>id\<close> of its second record, for a not-a-number, for an infinite component, for
  an extraction that raises and for a missing \<open>features\<close> key.
\<close>

theorem missing_id_aborts_batch:
  "validate [snip 1 (Fin 2), snip 2 NaN, snip 3 (Fin 4)] =
     Inr \<lparr>feature_vectors = [Arr1 [Fin 2], Arr1 [Fin 4]], valid_indices = [0, 2],
          warnings = [InvalidFeatures 2]\<rparr> \<and>
   validate [snip 1 (Fin 2), anonymous (Some [''duration'' \<mapsto> Scalar NaN]), snip 3 (Fin 4)] =
     Inl (KeyError ''id'') \<and>
   validate [snip 1 (Fin 2), anonymous (Some [''duration'' \<mapsto> Scalar NegInf]), snip 3 (Fin 4)] =
     Inl (KeyError ''id'') \<and>
   validate [snip 1 (Fin 2), anonymous (Some mfcc_only), snip 3 (Fin 4)] =
     Inl (KeyError ''id'') \<and>
   validate [snip 1 (Fin 2), anonymous None, snip 3 (Fin 4)] = Inl (KeyError ''id'') \<and>
   perform_clustering demo_engines
     [snip 1 (Fin 2), anonymous (Some [''duration'' \<mapsto> Scalar NaN]), snip 3 (Fin 4)] =
     Inl (KeyError ''id'')"
proof -
  have t: "try_extract (anonymous (Some [''duration'' \<mapsto> Scalar x])) = Inr (Arr1 [x])" for x
    by (simp add: try_extract_def anonymous_def extract_snip)
  have m: "try_extract (anonymous (Some mfcc_only)) = Inl (KeyError ''mfcc_std'')"
    by (simp add: try_extract_def anonymous_def extract_mfcc_only)
  have f: "try_extract (anonymous None) = Inl (KeyError ''features'')"
    by (simp add: try_extract_def anonymous_def)
  have i: "read_id (anonymous d) = Inl (KeyError ''id'')" for d
    by (simp add: read_id_def anonymous_def)
  have a: "validate [snip 1 (Fin 2), snip 2 NaN, snip 3 (Fin 4)] =
     Inr \<lparr>feature_vectors = [Arr1 [Fin 2], Arr1 [Fin 4]], valid_indices = [0, 2],
          warnings = [InvalidFeatures 2]\<rparr>"
    by (simp add: validate_def init_state_def process_snippet_def try_extract_snip
        any_isnan_def any_isinf_def read_id_def snippet_id_snip)
  have b: "validate [snip 1 (Fin 2), anonymous (Some [''duration'' \<mapsto> Scalar NaN]),
             snip 3 (Fin 4)] = Inl (KeyError ''id'')"
    by (simp add: validate_def init_state_def process_snippet_def try_extract_snip t i
        any_isnan_def any_isinf_def)
  have c: "validate [snip 1 (Fin 2), anonymous (Some [''duration'' \<mapsto> Scalar NegInf]),
             snip 3 (Fin 4)] = Inl (KeyError ''id'')"
    by (simp add: validate_def init_state_def process_snippet_def try_extract_snip t i
        any_isnan_def any_isinf_def)
  have d: "validate [snip 1 (Fin 2), anonymous (Some mfcc_only), snip 3 (Fin 4)] =
             Inl (KeyError ''id'')"
    by (simp add: validate_def init_state_def process_snippet_def try_extract_snip m i
        any_isnan_def any_isinf_def)
  have e: "validate [snip 1 (Fin 2), anonymous None, snip 3 (Fin 4)] = Inl (KeyError ''id'')"
    by (simp add: validate_def init_state_def process_snippet_def try_extract_snip f i
        any_isnan_def any_isinf_def)
  have p: "perform_clustering demo_engines
     [snip 1 (Fin 2), anonymous (Some [''duration'' \<mapsto> Scalar NaN]), snip 3 (Fin 4)] =
     Inl (KeyError ''id'')"
    using b by (rule perform_clustering_loop_error)
  from a b c d e p show ?thesis by blast
qed

section \<open>The result\<close>

text \<open>
  C7. When the library calls return one row per sample, every result has as many
  valid indices as labels and as embedding points, and its valid indices are distinct
  positions of the batch in strictly increasing order.
\<close>

theorem valid_index_consistency:
  assumes "one_row_per_sample eng" and "perform_clustering eng batch = Inr r"
  shows "length (results.valid_indices r) = length (cluster_labels r) \<and>
         length (cluster_labels r) = length (umap_embeddings r) \<and>
         distinct (results.valid_indices r) \<and>
         (\<forall>i \<in> set (results.valid_indices r). i < length batch) \<and>
         sorted_wrt (<) (results.valid_indices r)"
proof -
  from assms(2) obtain st X X_scaled where
    v: "validate batch = Inr st" and
    st: "np_stack (feature_vectors st) = Inr X" and
    sc: "scaler eng X = Inr X_scaled" and
    cl: "clusterer eng (clustering_params (length (feature_vectors st))) X_scaled
           = Inr (cluster_labels r)" and
    um: "reducer eng (embedding_params (length (feature_vectors st))) X_scaled
           = Inr (umap_embeddings r)" and
    vi: "results.valid_indices r = loop_state.valid_indices st"
    using perform_clustering_Inr by blast
  have lx: "length X = length (feature_vectors st)"
    using st by (rule np_stack_length)
  have ls: "length X_scaled = length X"
    using assms(1) sc by (simp add: one_row_per_sample_def)
  have ll: "length (cluster_labels r) = length X_scaled"
    using assms(1) cl unfolding one_row_per_sample_def by blast
  have le: "length (umap_embeddings r) = length X_scaled"
    using assms(1) um unfolding one_row_per_sample_def by blast
  have s: "sorted_wrt (<) (results.valid_indices r)"
    using validate_indices_sorted [OF v] by (simp add: vi)
  then have d: "distinct (results.valid_indices r)"
    by (simp add: strict_sorted_iff)
  have rg: "\<forall>i \<in> set (results.valid_indices r). i < length batch"
    using validate_indices_range [OF v] by (simp add: vi)
  from lx ls ll le s d rg validate_lengths [OF v] show ?thesis
    by (simp add: vi)
qed

theorem valid_index_consistency_witness:
  "results.valid_indices
     \<lparr>cluster_labels = [0, - 1, 1, 0],
      umap_embeddings = [[3, 1 / 2], [3, 1 / 2], [3, 1 / 2], [3, 1 / 2]],
      cluster_centers = [[3], [12]],
      valid_indices = [0, 2, 3, 4],
      total_clusters = 2,
      noise_points = 1\<rparr> = [0, 2, 3, 4] \<and>
   one_row_per_sample demo_engines \<and>
   perform_clustering demo_engines demo_batch =
     Inr \<lparr>cluster_labels = [0, - 1, 1, 0],
          umap_embeddings = [[3, 1 / 2], [3, 1 / 2], [3, 1 / 2], [3, 1 / 2]],
          cluster_centers = [[3], [12]],
          valid_indices = [0, 2, 3, 4],
          total_clusters = 2,
          noise_points = 1\<rparr> \<and>
   length demo_batch = 5"
  using valid_index_consistency [OF one_row_per_sample_demo demo_run]
    one_row_per_sample_demo demo_run
  by (simp add: demo_batch_def)

text \<open>
  C8. In every result, \<open>total_clusters\<close> is the number of distinct labels other than
  \<open>-1\<close>, \<open>noise_points\<close> is the number of occurrences of \<open>-1\<close>, and
  \<open>cluster_centers\<close> has one entry per distinct label other than \<open>-1\<close>, in ascending
  order of the label: the mean of the rows of the normalized matrix that carry the label
  (so no row labelled \<open>-1\<close> enters a center), which for a matrix of width \<open>d\<close> is,
  in each column, the sum of the entries divided by the number of rows.
\<close>

theorem label_center_consistency:
  assumes "perform_clustering eng batch = Inr r"
  shows "total_clusters r = card {l \<in> set (cluster_labels r). l \<noteq> - 1} \<and>
         noise_points r = count_list (cluster_labels r) (- 1) \<and>
         length (cluster_centers r) = total_clusters r \<and>
         (\<exists>st X X_scaled.
            validate batch = Inr st \<and>
            np_stack (feature_vectors st) = Inr X \<and>
            scaler eng X = Inr X_scaled \<and>
            cluster_centers r =
              map (\<lambda>l. np_mean_axis0 (rows_with_label X_scaled (cluster_labels r) l))
                (sorted_list_of_set {l \<in> set (cluster_labels r). l \<noteq> - 1}) \<and>
            (\<forall>l d j. l \<in> set (cluster_labels r) \<and> l \<noteq> - 1 \<and>
                 (\<forall>row \<in> set X_scaled. length row = d) \<and> j < d \<longrightarrow>
               rows_with_label X_scaled (cluster_labels r) l \<noteq> [] \<and>
               np_mean_axis0 (rows_with_label X_scaled (cluster_labels r) l) ! j =
                 (\<Sum>row\<leftarrow>rows_with_label X_scaled (cluster_labels r) l. row ! j) /
                   real (length (rows_with_label X_scaled (cluster_labels r) l))))"
proof -
  let ?ls = "cluster_labels r"
  from assms obtain st X X_scaled where
    v: "validate batch = Inr st" and
    st: "np_stack (feature_vectors st) = Inr X" and
    sc: "scaler eng X = Inr X_scaled" and
    ce: "centers_loop X_scaled ?ls (sorted_list_of_set (unique_labels_of ?ls)) []
           = Inr (cluster_centers r)" and
    tc: "total_clusters r = card (unique_labels_of ?ls)" and
    np: "noise_points r = length (filter (\<lambda>l. l = - 1) ?ls)"
    using perform_clustering_Inr by blast
  have u: "unique_labels_of ?ls = {l \<in> set ?ls. l \<noteq> - 1}"
    by (rule unique_labels_of_eq)
  from centers_loop_result [OF ce] have
    cs: "cluster_centers r =
           map (\<lambda>l. np_mean_axis0 (rows_with_label X_scaled ?ls l))
             (sorted_list_of_set (unique_labels_of ?ls))" and
    len: "sorted_list_of_set (unique_labels_of ?ls) = [] \<or> length ?ls = length X_scaled"
    by (simp_all add: sorted_unique_labels_no_noise)
  have a: "total_clusters r = card {l \<in> set ?ls. l \<noteq> - 1}"
    using tc u by simp
  have b: "noise_points r = count_list ?ls (- 1)"
    using np by (simp add: length_filter_eq_count_list)
  have c: "length (cluster_centers r) = total_clusters r"
    using cs tc by simp
  have d: "\<forall>l d j. l \<in> set ?ls \<and> l \<noteq> - 1 \<and>
                 (\<forall>row \<in> set X_scaled. length row = d) \<and> j < d \<longrightarrow>
               rows_with_label X_scaled ?ls l \<noteq> [] \<and>
               np_mean_axis0 (rows_with_label X_scaled ?ls l) ! j =
                 (\<Sum>row\<leftarrow>rows_with_label X_scaled ?ls l. row ! j) /
                   real (length (rows_with_label X_scaled ?ls l))"
  proof (intro allI impI)
    fix l d j
    assume h: "l \<in> set ?ls \<and> l \<noteq> - 1 \<and> (\<forall>row \<in> set X_scaled. length row = d) \<and> j < d"
    then have "l \<in> unique_labels_of ?ls" using u by simp
    then have "sorted_list_of_set (unique_labels_of ?ls) \<noteq> []"
      using u by (auto simp: sorted_list_of_set.sorted_key_list_of_set_eq_Nil_iff)
    with len have eq: "length ?ls = length X_scaled" by simp
    from h have ne: "rows_with_label X_scaled ?ls l \<noteq> []"
      using rows_with_label_nonempty [OF _ eq] by simp
    from h have "\<forall>row \<in> set (rows_with_label X_scaled ?ls l). length row = d"
      using rows_with_label_subset [of X_scaled ?ls l] by blast
    from np_mean_axis0_nth [OF ne this] h ne
    show "rows_with_label X_scaled ?ls l \<noteq> [] \<and>
               np_mean_axis0 (rows_with_label X_scaled ?ls l) ! j =
                 (\<Sum>row\<leftarrow>rows_with_label X_scaled ?ls l. row ! j) /
                   real (length (rows_with_label X_scaled ?ls l))" by simp
  qed
  from v st sc cs u d have
    "\<exists>st X X_scaled.
            validate batch = Inr st \<and>
            np_stack (feature_vectors st) = Inr X \<and>
            scaler eng X = Inr X_scaled \<and>
            cluster_centers r =
              map (\<lambda>l. np_mean_axis0 (rows_with_label X_scaled ?ls l))
                (sorted_list_of_set {l \<in> set ?ls. l \<noteq> - 1}) \<and>
            (\<forall>l d j. l \<in> set ?ls \<and> l \<noteq> - 1 \<and>
                 (\<forall>row \<in> set X_scaled. length row = d) \<and> j < d \<longrightarrow>
               rows_with_label X_scaled ?ls l \<noteq> [] \<and>
               np_mean_axis0 (rows_with_label X_scaled ?ls l) ! j =
                 (\<Sum>row\<leftarrow>rows_with_label X_scaled ?ls l. row ! j) /
                   real (length (rows_with_label X_scaled ?ls l)))"
    by auto
  with a b c show ?thesis by blast
qed

theorem label_center_consistency_witness:
  "perform_clustering demo_engines demo_batch =
     Inr \<lparr>cluster_labels = [0, - 1, 1, 0],
          umap_embeddings = [[3, 1 / 2], [3, 1 / 2], [3, 1 / 2], [3, 1 / 2]],
          cluster_centers = [[3], [12]],
          valid_indices = [0, 2, 3, 4],
          total_clusters = 2,
          noise_points = 1\<rparr> \<and>
   card {l \<in> set [0, - 1, 1, 0 :: int]. l \<noteq> - 1} = 2 \<and>
   count_list [0, - 1, 1, 0 :: int] (- 1) = 1"
  using label_center_consistency [OF demo_run] demo_run
  by simp

section \<open>Batches of fewer than two valid records, and of records without features\<close>




text \<open>
  C4, as the claim states it, fails: a record whose mapping has no recognized key gives
  a zero-length vector, which has no not-a-number and no infinite component and so is
  admitted; the "no valid feature vectors" error is not raised, and the batch goes on to
  the scaler.
\<close>

theorem empty_features_counterexample:
  "no_recognized_group Map.empty \<and>
   features empty_record = Some Map.empty \<and>
   try_extract empty_record = Inr (Arr1 []) \<and>
   validate [empty_record] =
     Inr \<lparr>feature_vectors = [Arr1 []], valid_indices = [0], warnings = []\<rparr> \<and>
   perform_clustering demo_engines [empty_record] =
     Inl (EngineFailure ''Found array with 0 feature(s)'')"
proof -
  have e: "try_extract empty_record = Inr (Arr1 [])"
    by (simp add: try_extract_def empty_record_def extract_no_recognized_group
        no_recognized_group_empty)
  have v: "validate [empty_record] =
     Inr \<lparr>feature_vectors = [Arr1 []], valid_indices = [0], warnings = []\<rparr>"
    by (simp add: validate_def init_state_def process_snippet_def e any_isnan_def
        any_isinf_def)
  have p: "perform_clustering demo_engines [empty_record] =
     Inl (EngineFailure ''Found array with 0 feature(s)'')"
    by (simp add: perform_clustering_def v np_stack_def demo_engines_def demo_scaler_def)
  from e v p no_recognized_group_empty show ?thesis
    by (simp add: empty_record_def)
qed

text \<open>
  C4, amended. For every batch in which every record's features mapping has none of the
  recognized keys, every assembled vector is zero-length and every record is admitted
  as a valid sample: no warning is printed, the valid indices are all positions of the
  batch, and the "no valid feature vectors" error is raised only for the empty batch.
\<close>

theorem unrecognized_features_admitted:
  assumes "\<forall>s \<in> set batch. \<exists>d. features s = Some d \<and> no_recognized_group d"
  shows "(\<forall>s \<in> set batch. try_extract s = Inr (Arr1 [])) \<and>
         validate batch =
           Inr \<lparr>feature_vectors = replicate (length batch) (Arr1 []),
                valid_indices = [0..<length batch],
                warnings = []\<rparr> \<and>
         (perform_clustering eng batch = Inl NoValidFeatureVectors) = (batch = [])"
proof -
  have v: "\<forall>s \<in> set batch. valid_vector s = Some (Arr1 [])"
    using assms valid_vector_no_recognized_group by blast
  have t: "\<forall>s \<in> set batch. try_extract s = Inr (Arr1 [])"
    using assms by (auto simp: try_extract_def extract_no_recognized_group)
  have w: "\<forall>s \<in> set batch. snippet_warning s = None"
    using v valid_vector_no_warning by blast
  have nn: "\<forall>s \<in> set batch. valid_vector s \<noteq> None" using v by simp
  then have "loop_completes batch" by (rule loop_completes_all_valid)
  then obtain st where st: "validate batch = Inr st"
    using validate_completes by blast
  from validate_Inr [OF st] map_filter_all_Some [OF v] map_filter_all_None [OF w]
    filter_enumerate_all [OF nn, of 0]
  have f: "feature_vectors st = replicate (length batch) (Arr1 [])"
    "loop_state.valid_indices st = [0..<length batch]" "warnings st = []"
    by simp_all
  then have eq: "st = \<lparr>feature_vectors = replicate (length batch) (Arr1 []),
                valid_indices = [0..<length batch], warnings = []\<rparr>"
    by (cases st) simp
  have nv: "(perform_clustering eng batch = Inl NoValidFeatureVectors) = (batch = [])"
    using perform_clustering_no_valid [of eng batch] st f(1) by simp
  from t st eq nv show ?thesis by blast
qed

theorem unrecognized_features_admitted_witness:
  "no_recognized_group Map.empty \<and>
   validate [empty_record, empty_record] =
     Inr \<lparr>feature_vectors = [Arr1 [], Arr1 []], valid_indices = [0, 1], warnings = []\<rparr> \<and>
   perform_clustering demo_engines [empty_record, empty_record] \<noteq> Inl NoValidFeatureVectors"
proof -
  have h: "\<forall>s \<in> set [empty_record, empty_record].
             \<exists>d. features s = Some d \<and> no_recognized_group d"
    by (simp add: empty_record_def no_recognized_group_empty)
  from unrecognized_features_admitted [OF h, of demo_engines] no_recognized_group_empty
  show ?thesis by (simp add: numeral_2_eq_2 upt_rec)
qed

section \<open>Paired groups\<close>

text \<open>
  C10. If \<open>mfcc_mean\<close> (or \<open>chroma_mean\<close>) is present and \<open>mfcc_std\<close> (or
  \<open>chroma_std\<close>) is absent, the extraction raises an error and the record (with its
  \<open>id\<close> in the warning) is skipped with a warning. If the mean key is absent, the
  deviation key is ignored: whatever is stored under it, the extracted vector is the
  same as without it.
\<close>

theorem paired_group_coupling:
  "(features s = Some d \<and> snippet_id s = Some k \<and>
    d ''mfcc_mean'' \<noteq> None \<and> d ''mfcc_std'' = None \<longrightarrow>
      (\<exists>e. extract_feature_vector d = Inl e \<and>
           process_snippet i s st =
             Inr (st\<lparr>warnings := warnings st @ [FailedToExtract k e]\<rparr>))) \<and>
   (features s = Some d \<and> snippet_id s = Some k \<and>
    d ''chroma_mean'' \<noteq> None \<and> d ''chroma_std'' = None \<longrightarrow>
      (\<exists>e. extract_feature_vector d = Inl e \<and>
           process_snippet i s st =
             Inr (st\<lparr>warnings := warnings st @ [FailedToExtract k e]\<rparr>))) \<and>
   (d ''mfcc_mean'' = None \<longrightarrow>
      extract_feature_vector (d(''mfcc_std'' := v)) = extract_feature_vector d) \<and>
   (d ''chroma_mean'' = None \<longrightarrow>
      extract_feature_vector (d(''chroma_std'' := v)) = extract_feature_vector d)"
proof (intro conjI impI)
  assume h: "features s = Some d \<and> snippet_id s = Some k \<and>
             d ''mfcc_mean'' \<noteq> None \<and> d ''mfcc_std'' = None"
  then obtain e where "extract_feature_vector d = Inl e"
    using extract_missing_mfcc_std by blast
  with h process_snippet_failed
  show "\<exists>e. extract_feature_vector d = Inl e \<and>
           process_snippet i s st =
             Inr (st\<lparr>warnings := warnings st @ [FailedToExtract k e]\<rparr>)"
    by blast
next
  assume h: "features s = Some d \<and> snippet_id s = Some k \<and>
             d ''chroma_mean'' \<noteq> None \<and> d ''chroma_std'' = None"
  then obtain e where "extract_feature_vector d = Inl e"
    using extract_missing_chroma_std by blast
  with h process_snippet_failed
  show "\<exists>e. extract_feature_vector d = Inl e \<and>
           process_snippet i s st =
             Inr (st\<lparr>warnings := warnings st @ [FailedToExtract k e]\<rparr>)"
    by blast
next
  assume "d ''mfcc_mean'' = None"
  then show "extract_feature_vector (d(''mfcc_std'' := v)) = extract_feature_vector d"
    by (rule extract_ignores_mfcc_std)
next
  assume "d ''chroma_mean'' = None"
  then show "extract_feature_vector (d(''chroma_std'' := v)) = extract_feature_vector d"
    by (rule extract_ignores_chroma_std)
qed

theorem paired_group_coupling_witness:
  "process_snippet 0 \<lparr>snippet_id = Some 9, features = Some mfcc_only\<rparr> init_state =
     Inr \<lparr>feature_vectors = [], valid_indices = [],
          warnings = [FailedToExtract 9 (KeyError ''mfcc_std'')]\<rparr> \<and>
   process_snippet 0 \<lparr>snippet_id = Some 9, features = Some chroma_only\<rparr> init_state =
     Inr \<lparr>feature_vectors = [], valid_indices = [],
          warnings = [FailedToExtract 9 (KeyError ''chroma_std'')]\<rparr> \<and>
   extract_feature_vector
     ([''duration'' \<mapsto> Scalar (Fin 2)](''mfcc_std'' \<mapsto> Seq [Fin 1])) = Inr (Arr1 [Fin 2]) \<and>
   extract_feature_vector
     ([''duration'' \<mapsto> Scalar (Fin 2)](''chroma_std'' \<mapsto> Seq [Fin 1])) = Inr (Arr1 [Fin 2])"
  using
    paired_group_coupling [of "\<lparr>snippet_id = Some 9, features = Some mfcc_only\<rparr>" mfcc_only
      9 0 init_state "Some (Seq [Fin 1])"]
    paired_group_coupling [of "\<lparr>snippet_id = Some 9, features = Some chroma_only\<rparr>"
      chroma_only 9 0 init_state "Some (Seq [Fin 1])"]
    paired_group_coupling [of "\<lparr>snippet_id = Some 9, features = Some mfcc_only\<rparr>"
      "[''duration'' \<mapsto> Scalar (Fin 2)]" 9 0 init_state "Some (Seq [Fin 1])"]
    extract_snip [of "Fin 2"]
  by (simp add: extract_mfcc_only extract_chroma_only init_state_def)
     (simp add: mfcc_only_def chroma_only_def)

end
